theory Spec2Isabelle
  imports Main
begin

section \<open>Outcomes of a call, files, and the libraries the program calls\<close>

text \<open>
  \<^verbatim>\<open>quotemaker.py\<close> defines no exception class. What ends a call early is
  \<^item> \<^verbatim>\<open>quit()\<close>, which ends the process (\<open>SystemExit\<close>);
  \<^item> \<^verbatim>\<open>FileNotFoundError\<close> from \<^verbatim>\<open>open\<close>, caught in \<open>get_ai_quote\<close> and \<open>get_quote\<close>
    and nowhere else;
  \<^item> \<^verbatim>\<open>IndexError\<close> from indexing a list out of range;
  \<^item> \<^verbatim>\<open>UnicodeDecodeError\<close> from \<^verbatim>\<open>read()\<close> and \<^verbatim>\<open>UnicodeEncodeError\<close> from \<^verbatim>\<open>write()\<close> on a
    file opened in text mode, neither of them caught;
  \<^item> any exception raised inside a library call (spaCy, markovify, \<^verbatim>\<open>random\<close>): the program
    has no handler for these, so they reach the caller as they are. \<open>LibraryError\<close> carries
    the exception's class name.
\<close>

datatype error =
    SystemExit | FileNotFoundError | IndexError | UnicodeDecodeError | UnicodeEncodeError
  | LibraryError string

text \<open>
  The working directory: a file name is mapped to the bytes of the file, if the file exists.
\<close>

type_synonym files = "string \<rightharpoonup> string"

text \<open>
  The files are opened in text mode. \<^verbatim>\<open>read()\<close> decodes all the bytes of the file at once, and
  raises \<^verbatim>\<open>UnicodeDecodeError\<close> when some byte, wherever it stands, does not decode;
  \<^verbatim>\<open>write(s)\<close> encodes \<open>s\<close>. Which encoding is used is the platform's choice, so the two
  directions are parameters.
\<close>

record codec =
  decode_text :: "string \<Rightarrow> error + string"
  encode_text :: "string \<Rightarrow> error + string"

text \<open>
  markovify is not part of the repository: the program only calls it. The four calls the
  program makes are the fields of a record, so that what is proved of the program holds for
  whatever the library does. \<open>'m\<close> is the type of a \<^verbatim>\<open>markovify.Text\<close> object.
  \<^item> \<open>Text input_text state_size\<close> is \<^verbatim>\<open>markovify.Text(input_text, state_size=...)\<close>;
  \<^item> \<open>to_json m\<close> is \<^verbatim>\<open>m.to_json()\<close>;
  \<^item> \<open>from_json s\<close> is \<^verbatim>\<open>markovify.Text.from_json(s)\<close>;
  \<^item> \<open>make_short_sentence m max_chars\<close> is \<^verbatim>\<open>m.make_short_sentence(max_chars=...)\<close>:
    a sentence, or Python's \<^verbatim>\<open>None\<close>. The library's random choices are part of the instance.
\<close>

record 'm markovify =
  Text :: "string \<Rightarrow> nat \<Rightarrow> error + 'm"
  to_json :: "'m \<Rightarrow> error + string"
  from_json :: "string \<Rightarrow> error + 'm"
  make_short_sentence :: "'m \<Rightarrow> int \<Rightarrow> error + string option"

text \<open>
  spaCy is a parameter too: \<^verbatim>\<open>spacy.load("en_core_web_sm")\<close> fails or gives a pipeline, and the
  pipeline applied to a text fails or gives the document, of which the program reads only
  \<^verbatim>\<open>sent.text\<close> for each sentence of \<^verbatim>\<open>doc.sents\<close>, in order.
\<close>

type_synonym pipeline = "string \<Rightarrow> error + string list"

section \<open>Python's built-ins used by the program\<close>

text \<open>\<^verbatim>\<open>" ".join(xs)\<close>\<close>

fun join_space :: "string list \<Rightarrow> string" where
  "join_space [] = []"
| "join_space [x] = x"
| "join_space (x # y # ys) = x @ '' '' @ join_space (y # ys)"

text \<open>
  \<^verbatim>\<open>xs[i]\<close>: a negative index counts from the end, and an index out of range raises
  \<^verbatim>\<open>IndexError\<close>.
\<close>

definition getitem :: "'a list \<Rightarrow> int \<Rightarrow> error + 'a" where
  "getitem xs i =
     (let j = (if i < 0 then i + int (length xs) else i)
      in if 0 \<le> j \<and> j < int (length xs) then Inr (xs ! nat j) else Inl IndexError)"

text \<open>
  \<^verbatim>\<open>random.randint(a, b)\<close>: an integer \<open>N\<close> with \<open>a \<le> N \<le> b\<close>, both end points included;
  \<^verbatim>\<open>ValueError\<close> when the range is empty. \<open>rnd\<close> is the generator's raw draw: as it runs over
  the naturals, the result runs over every integer from \<open>a\<close> to \<open>b\<close> and no other.
\<close>

definition randint :: "int \<Rightarrow> int \<Rightarrow> nat \<Rightarrow> error + int" where
  "randint a b rnd =
     (if b < a then Inl (LibraryError ''ValueError'')
      else Inr (a + int (rnd mod nat (b - a + 1))))"

section \<open>\<^verbatim>\<open>generate_model\<close>\<close>

text \<open>
  The list comprehension of lines 79 to 81,
  \<^verbatim>\<open>[sent.text for sent in quotes_doc.sents if len(sent.text) > 1]\<close>,
  and the string joined from it.
\<close>

definition sents_filter :: "string list \<Rightarrow> string list" where
  "sents_filter sents = filter (\<lambda>text. length text > 1) sents"

definition quotes_sents :: "string list \<Rightarrow> string" where
  "quotes_sents sents = join_space (sents_filter sents)"

text \<open>
  The calls in the order of the source: load the pipeline; open \<^verbatim>\<open>quotes.txt\<close> (no handler:
  a missing file raises); \<^verbatim>\<open>read()\<close> the whole file, then slice the text to \<^verbatim>\<open>[0:1000000]\<close>
  and run the pipeline on the slice; open \<^verbatim>\<open>model.json\<close> for writing, which creates or empties
  it; build the model with \<^verbatim>\<open>state_size=3\<close>; write its JSON. A failure inside the second
  \<^verbatim>\<open>with\<close> block leaves the emptied file behind. The function returns \<^verbatim>\<open>None\<close>, here \<open>()\<close>,
  and the files as it leaves them.
\<close>

definition generate_model ::
  "error + pipeline \<Rightarrow> 'm markovify \<Rightarrow> codec \<Rightarrow> files \<Rightarrow> (error + unit) \<times> files" where
  "generate_model spacy_load lib io fs =
     (case spacy_load of
        Inl e \<Rightarrow> (Inl e, fs)
      | Inr nlp \<Rightarrow>
        (case fs ''quotes.txt'' of
           None \<Rightarrow> (Inl FileNotFoundError, fs)
         | Some bytes \<Rightarrow>
           (case decode_text io bytes of
              Inl e \<Rightarrow> (Inl e, fs)
            | Inr contents \<Rightarrow>
              (case nlp (take 1000000 contents) of
                 Inl e \<Rightarrow> (Inl e, fs)
               | Inr sents \<Rightarrow>
                 (case Text lib (quotes_sents sents) 3 of
                    Inl e \<Rightarrow> (Inl e, fs(''model.json'' \<mapsto> []))
                  | Inr text_model \<Rightarrow>
                    (case to_json lib text_model of
                       Inl e \<Rightarrow> (Inl e, fs(''model.json'' \<mapsto> []))
                     | Inr json \<Rightarrow>
                       (case encode_text io json of
                          Inl e \<Rightarrow> (Inl e, fs(''model.json'' \<mapsto> []))
                        | Inr written \<Rightarrow> (Inr (), fs(''model.json'' \<mapsto> written)))))))))"

section \<open>\<^verbatim>\<open>get_ai_quote\<close>\<close>

text \<open>
  The \<^verbatim>\<open>try\<close> block opens \<^verbatim>\<open>model.json\<close>, reads it and hands its text to \<^verbatim>\<open>from_json\<close>; a
  \<^verbatim>\<open>FileNotFoundError\<close> raised in the block ends the process with \<^verbatim>\<open>quit()\<close>, any other
  exception is not caught. The last line calls \<^verbatim>\<open>make_short_sentence(max_chars=100)\<close>: the
  literal 100, not the parameter \<open>max_chars\<close>, and returns what the call returns.
\<close>

definition get_ai_quote ::
  "'m markovify \<Rightarrow> codec \<Rightarrow> files \<Rightarrow> int \<Rightarrow> error + string option" where
  "get_ai_quote lib io fs max_chars =
     (case (case fs ''model.json'' of
              None \<Rightarrow> Inl FileNotFoundError
            | Some bytes \<Rightarrow>
              (case decode_text io bytes of
                 Inl e \<Rightarrow> Inl e
               | Inr contents \<Rightarrow> from_json lib contents)) of
        Inl e \<Rightarrow> Inl (if e = FileNotFoundError then SystemExit else e)
      | Inr quote_generator \<Rightarrow> make_short_sentence lib quote_generator 100)"

section \<open>\<^verbatim>\<open>get_quote\<close>\<close>

text \<open>
  \<open>quotes_csv\<close> is \<^verbatim>\<open>list(csv.reader(quotes_csv, delimiter=";"))\<close>, the rows of
  \<^verbatim>\<open>quotes_all.csv\<close>, or \<open>None\<close> when the file does not exist (\<^verbatim>\<open>quit()\<close>). The slice
  \<^verbatim>\<open>[2:]\<close> drops two rows; the index is \<^verbatim>\<open>random.randint(0, len(quotes))\<close>.
\<close>

definition get_quote :: "string list list option \<Rightarrow> nat \<Rightarrow> error + string list" where
  "get_quote quotes_csv rnd =
     (case quotes_csv of
        None \<Rightarrow> Inl SystemExit
      | Some rows \<Rightarrow>
        (let quotes = drop 2 rows
         in case randint 0 (int (length quotes)) rnd of
              Inl e \<Rightarrow> Inl e
            | Inr index \<Rightarrow> getitem quotes index))"

section \<open>Inputs for concrete evaluation\<close>

text \<open>
  An instance of the library interface, used only where a theorem is evaluated at a
  concrete input. Its generator knows one sentence, the text it was built from: it offers
  that sentence when it fits the limit and \<^verbatim>\<open>None\<close> when it does not, as markovify does when
  its tries are used up; an empty text has no begin state (\<^verbatim>\<open>KeyError\<close>), and an empty
  string is no JSON (\<^verbatim>\<open>JSONDecodeError\<close>).
\<close>

definition one_sentence :: "string markovify" where
  "one_sentence =
     \<lparr> Text = (\<lambda>input_text state_size.
                 if input_text = [] then Inl (LibraryError ''KeyError'') else Inr input_text),
       to_json = (\<lambda>m. Inr m),
       from_json = (\<lambda>s. if s = [] then Inl (LibraryError ''JSONDecodeError'') else Inr s),
       make_short_sentence = (\<lambda>m max_chars.
                 Inr (if int (length m) \<le> max_chars then Some m else None)) \<rparr>"

text \<open>A pipeline that takes a non-empty text to be one sentence.\<close>

definition whole_text :: pipeline where
  "whole_text text = Inr (if text = [] then [] else [text])"

text \<open>The ASCII codec: a byte below 128 is the character of that code, any other byte is an error.\<close>

definition ascii :: codec where
  "ascii =
     \<lparr> decode_text = (\<lambda>bytes. if list_all (\<lambda>b. of_char b < (128::nat)) bytes
                            then Inr bytes else Inl UnicodeDecodeError),
       encode_text = (\<lambda>s. if list_all (\<lambda>c. of_char c < (128::nat)) s
                        then Inr s else Inl UnicodeEncodeError) \<rparr>"

section \<open>The spec's wording of the sentence filter\<close>

text \<open>
  Python's ASCII whitespace (\<^verbatim>\<open>str.isspace\<close>): space, tab, line feed, vertical tab, form
  feed, carriage return.
\<close>

definition is_space :: "char \<Rightarrow> bool" where
  "is_space c = (c \<in> set [CHR '' '', CHR 0x09, CHR 0x0A, CHR 0x0B, CHR 0x0C, CHR 0x0D])"

text \<open>
  Following the spec's words, not the source (section 4.1: sentences shorter than 1 real
  token after trimming whitespace are discarded): nothing is left of the sentence once
  whitespace is trimmed, that is, every character of it is whitespace.
\<close>

definition spec_discards :: "string \<Rightarrow> bool" where
  "spec_discards text = list_all is_space text"

section \<open>The weighted choice of the sampler\<close>

text \<open>
  Modelled from the spec: the step of the sampling walk that chooses the next token. The
  program has no such step of its own. It calls markovify's \<^verbatim>\<open>make_short_sentence\<close>, and the
  walk is inside that library, which is not among the sources. The definitions follow
  section 3 (a chain maps a state to the occurrence counts of the tokens that follow it),
  section 4.3, steps 2 and 3 (look up the distribution of the current state; sample the
  next token weighted by occurrence count) and section 9 (a cumulative-weight table and a
  single uniform draw).

  A distribution is the table of the next tokens with their counts. \<open>total\<close> is the last
  entry of the cumulative table, \<open>count_of\<close> the occurrence count of a token. \<open>pick\<close> walks
  the cumulative weights: the draw \<open>r\<close> selects the first token whose cumulative weight
  exceeds \<open>r\<close>. \<open>rnd\<close> is the generator's raw draw, reduced to the range below \<open>total\<close>.
\<close>

type_synonym 't distribution = "('t \<times> nat) list"

definition total :: "'t distribution \<Rightarrow> nat" where
  "total dist = sum_list (map snd dist)"

definition count_of :: "'t distribution \<Rightarrow> 't \<Rightarrow> nat" where
  "count_of dist t = sum_list (map snd (filter (\<lambda>entry. fst entry = t) dist))"

fun pick :: "'t distribution \<Rightarrow> nat \<Rightarrow> 't option" where
  "pick [] r = None"
| "pick ((t, c) # rest) r = (if r < c then Some t else pick rest (r - c))"

definition weighted_choice :: "'t distribution \<Rightarrow> nat \<Rightarrow> 't option" where
  "weighted_choice dist rnd = pick dist (rnd mod total dist)"

definition next_token :: "('s \<rightharpoonup> 't distribution) \<Rightarrow> 's \<Rightarrow> nat \<Rightarrow> 't option" where
  "next_token chain state rnd =
     (case chain state of None \<Rightarrow> None | Some dist \<Rightarrow> weighted_choice dist rnd)"

section \<open>\<^verbatim>\<open>get_quote\<close>: the index\<close>

lemma randint_upper_end: "0 \<le> n \<Longrightarrow> randint 0 n (nat n) = Inr n"
  by (simp add: randint_def)

lemma randint_in_range:
  "randint a b rnd = Inr k \<Longrightarrow> a \<le> k \<and> k \<le> b"
proof -
  assume r: "randint a b rnd = Inr k"
  then have ab: "a \<le> b" by (auto simp: randint_def split: if_splits)
  then have pos: "0 < nat (b - a + 1)" by simp
  have "rnd mod nat (b - a + 1) < nat (b - a + 1)" using pos by (rule mod_less_divisor)
  then have "int (rnd mod nat (b - a + 1)) < b - a + 1" using ab by linarith
  moreover have "k = a + int (rnd mod nat (b - a + 1))"
    using r ab by (simp add: randint_def)
  ultimately show ?thesis by simp
qed

lemma get_quote_past_the_end:
  "get_quote (Some rows) (length (drop 2 rows)) = Inl IndexError"
  by (simp add: get_quote_def randint_def getitem_def Let_def)

text \<open>
  C10 (the claim: for a non-empty list of quotes the index drawn is strictly less than the
  length of the list, so the access is in bounds). The code draws from 0 to
  \<open>len(quotes)\<close> with both ends included. For a file of two header rows and one quote, the
  draw 1 is in the range of \<^verbatim>\<open>random.randint(0, 1)\<close>, is not less than the length 1, and
  the access raises \<^verbatim>\<open>IndexError\<close>; the draw 0 returns the quote.
\<close>

theorem get_quote_index_out_of_bounds:
  "get_quote (Some [[''quote'', ''author''], [''-----'', ''------''],
                    [''Be yourself; everyone else is already taken.'', ''Oscar Wilde'']]) 1
     = Inl IndexError
   \<and> randint 0 1 1 = Inr 1
   \<and> get_quote (Some [[''quote'', ''author''], [''-----'', ''------''],
                    [''Be yourself; everyone else is already taken.'', ''Oscar Wilde'']]) 0
     = Inr [''Be yourself; everyone else is already taken.'', ''Oscar Wilde'']"
  by (simp add: get_quote_def randint_def getitem_def)

section \<open>\<^verbatim>\<open>get_ai_quote\<close>: the length limit\<close>

lemma get_ai_quote_max_chars_unused:
  "get_ai_quote lib io fs max_chars = get_ai_quote lib io fs max_chars'"
  by (simp add: get_ai_quote_def)

lemma get_ai_quote_at_most_100:
  assumes limit: "\<And>m n s. make_short_sentence lib m n = Inr (Some s) \<Longrightarrow> int (length s) \<le> n"
    and ret: "get_ai_quote lib io fs max_chars = Inr (Some s)"
  shows "length s \<le> 100"
proof -
  from ret obtain g where "make_short_sentence lib g 100 = Inr (Some s)"
    by (auto simp: get_ai_quote_def split: option.splits sum.splits)
  from limit [OF this] show ?thesis by simp
qed

text \<open>
  C1 (the claim: the sentence returned by \<open>get_ai_quote(max_chars)\<close> is at most \<open>max_chars\<close>
  characters long). The parameter is documented as the maximal length of the sentence, but
  the body passes the literal 100 to the library. With a model whose sentence has 65
  characters, \<open>get_ai_quote(max_chars=50)\<close> returns that sentence.
\<close>

theorem get_ai_quote_exceeds_max_chars:
  "get_ai_quote one_sentence ascii
     [''model.json'' \<mapsto> ''Whether you think you can or you think you cannot, you are right.'']
     50
     = Inr (Some ''Whether you think you can or you think you cannot, you are right.'')
   \<and> length ''Whether you think you can or you think you cannot, you are right.'' = 65"
  by (simp add: get_ai_quote_def one_sentence_def ascii_def)

section \<open>\<^verbatim>\<open>get_ai_quote\<close>: no sentence within the limit\<close>

lemma get_ai_quote_exit:
  "get_ai_quote lib io fs max_chars = Inl SystemExit \<longleftrightarrow>
     fs ''model.json'' = None
     \<or> (\<exists>bytes. fs ''model.json'' = Some bytes
           \<and> (decode_text io bytes = Inl FileNotFoundError
                \<or> decode_text io bytes = Inl SystemExit))
     \<or> (\<exists>bytes contents. fs ''model.json'' = Some bytes \<and> decode_text io bytes = Inr contents
           \<and> (from_json lib contents = Inl FileNotFoundError
                \<or> from_json lib contents = Inl SystemExit))
     \<or> (\<exists>bytes contents g. fs ''model.json'' = Some bytes
           \<and> decode_text io bytes = Inr contents \<and> from_json lib contents = Inr g
           \<and> make_short_sentence lib g 100 = Inl SystemExit)"
  by (auto simp: get_ai_quote_def split: sum.splits option.splits)

text \<open>
  C4 (the claim: when no attempt within the retry budget fits the limit, the sampler fails
  with \<open>NoSentenceFound\<close> and never returns a default, empty, \<^verbatim>\<open>None\<close> or truncated
  sentence). \<open>get_ai_quote\<close> is annotated and documented to return a \<^verbatim>\<open>str\<close>, but it returns
  the library's answer unchecked. With a model whose only sentence has 118 characters no
  attempt fits 100 characters, the library answers \<^verbatim>\<open>None\<close>, and \<open>get_ai_quote\<close> returns
  that \<^verbatim>\<open>None\<close> without raising.
\<close>

theorem get_ai_quote_returns_None:
  "get_ai_quote one_sentence ascii
     [''model.json'' \<mapsto> ''The best way to predict the future is to invent it on your own today, because nobody else is going to do that for you.'']
     100
     = Inr None"
  by (simp add: get_ai_quote_def one_sentence_def ascii_def)

section \<open>\<^verbatim>\<open>get_ai_quote\<close>: trying again with a larger limit\<close>

text \<open>
  C5 (the claim: after a failure the caller regains control and may retry with a different
  corpus, a regenerated model, or a relaxed \<open>max_chars\<close> or \<open>max_attempts\<close>). The model's
  only sentence has 118 characters. \<open>get_ai_quote(max_chars=100)\<close> finds no sentence; the
  retry with \<open>max_chars=1000\<close> finds none either, although the library called with the
  limit 1000 returns the sentence: the body passes the literal 100 whatever the caller
  asks for.
\<close>

theorem get_ai_quote_retry_with_larger_limit:
  "get_ai_quote one_sentence ascii
     [''model.json'' \<mapsto> ''Success is not final and failure is not fatal; it is the courage to continue that counts, as somebody once said to me.'']
     100
     = Inr None
   \<and> get_ai_quote one_sentence ascii
     [''model.json'' \<mapsto> ''Success is not final and failure is not fatal; it is the courage to continue that counts, as somebody once said to me.'']
     1000
     = Inr None
   \<and> make_short_sentence one_sentence
     ''Success is not final and failure is not fatal; it is the courage to continue that counts, as somebody once said to me.''
     1000
     = Inr (Some ''Success is not final and failure is not fatal; it is the courage to continue that counts, as somebody once said to me.'')"
  by (simp add: get_ai_quote_def one_sentence_def ascii_def)

section \<open>\<^verbatim>\<open>generate_model\<close>: the sentence filter\<close>

lemma sents_filter_append:
  "sents_filter (xs @ ys) = sents_filter xs @ sents_filter ys"
  by (simp add: sents_filter_def)

lemma set_sents_filter:
  "set (sents_filter sents) = {text \<in> set sents. 2 \<le> length text}"
  by (auto simp: sents_filter_def)

text \<open>
  C8, as amended: a sentence is discarded exactly when its text has at most one character,
  and kept, in its place, when it has two or more; what the characters are plays no part.
\<close>

theorem sents_filter_by_length:
  "sents_filter (before @ text # after)
     = sents_filter before @ (if length text \<le> 1 then [] else [text]) @ sents_filter after"
  by (simp add: sents_filter_def)

text \<open>
  The claim as the spec states it (a sentence with at least one real token is kept) fails
  at the one-character sentence \<open>I\<close>: it has a real token, and the filter discards it.
\<close>

theorem sents_filter_drops_real_token:
  "\<not> spec_discards ''I'' \<and> sents_filter [''I''] = []"
  by (simp add: spec_discards_def is_space_def sents_filter_def)

section \<open>\<^verbatim>\<open>generate_model\<close>: the prefix of the corpus\<close>

lemma list_all_replicate: "list_all P (replicate n x) = (n = 0 \<or> P x)"
  by (induction n) auto

text \<open>The whole file is decoded before the slice is taken: a file that does not decode is an error.\<close>

lemma generate_model_undecodable:
  "fs ''quotes.txt'' = Some bytes \<Longrightarrow> decode_text io bytes = Inl e \<Longrightarrow>
   generate_model (Inr nlp) lib io fs = (Inl e, fs)"
  by (simp add: generate_model_def)

text \<open>
  C9, as amended: for a corpus file that decodes as text, \<open>generate_model\<close> builds the model
  from the first 1,000,000 characters of that text and ignores the rest: two corpus files
  whose texts have the same first 1,000,000 characters give the same outcome and leave the
  same \<^verbatim>\<open>model.json\<close>. (The file is nevertheless read and decoded as a whole first.)
\<close>

theorem generate_model_reads_prefix:
  "decode_text io bytes = Inr contents \<Longrightarrow> decode_text io bytes' = Inr contents' \<Longrightarrow>
   take 1000000 contents = take 1000000 contents' \<Longrightarrow>
   fst (generate_model spacy_load lib io (fs(''quotes.txt'' \<mapsto> bytes)))
     = fst (generate_model spacy_load lib io (fs(''quotes.txt'' \<mapsto> bytes')))
   \<and> snd (generate_model spacy_load lib io (fs(''quotes.txt'' \<mapsto> bytes))) ''model.json''
     = snd (generate_model spacy_load lib io (fs(''quotes.txt'' \<mapsto> bytes'))) ''model.json''"
  by (simp add: generate_model_def split: sum.splits)

theorem generate_model_reads_prefix_witness:
  "fst (generate_model (Inr whole_text) one_sentence ascii
          [''quotes.txt'' \<mapsto> replicate 1000000 CHR ''a'' @ ''b''])
     = fst (generate_model (Inr whole_text) one_sentence ascii
          [''quotes.txt'' \<mapsto> replicate 1000000 CHR ''a'' @ ''cd''])
   \<and> snd (generate_model (Inr whole_text) one_sentence ascii
          [''quotes.txt'' \<mapsto> replicate 1000000 CHR ''a'' @ ''b'']) ''model.json''
     = snd (generate_model (Inr whole_text) one_sentence ascii
          [''quotes.txt'' \<mapsto> replicate 1000000 CHR ''a'' @ ''cd'']) ''model.json''"
proof -
  let ?b = "replicate 1000000 CHR ''a'' @ ''b''"
  let ?cd = "replicate 1000000 CHR ''a'' @ ''cd''"
  have d1: "decode_text ascii ?b = Inr ?b"
    by (simp add: ascii_def list_all_replicate)
  have d2: "decode_text ascii ?cd = Inr ?cd"
    by (simp add: ascii_def list_all_replicate)
  have same: "take 1000000 ?b = take 1000000 ?cd" by simp
  show ?thesis
    by (rule generate_model_reads_prefix
          [where io = ascii and bytes = ?b and contents = ?b and bytes' = ?cd
             and contents' = ?cd and fs = Map.empty,
           OF d1 d2 same])
qed

text \<open>
  The claim as it is stated (all that follows the prefix is silently ignored) fails for a
  file whose first 1,000,000 characters are followed by a byte that does not decode:
  \<open>generate_model\<close> raises \<^verbatim>\<open>UnicodeDecodeError\<close>, while the same file cut to those
  1,000,000 characters builds a model.
\<close>

theorem generate_model_tail_is_decoded:
  "fst (generate_model (Inr whole_text) one_sentence ascii
          [''quotes.txt'' \<mapsto> replicate 1000000 CHR ''a'' @ [CHR 0xFF]])
     = Inl UnicodeDecodeError
   \<and> fst (generate_model (Inr whole_text) one_sentence ascii
          [''quotes.txt'' \<mapsto> replicate 1000000 CHR ''a''])
     = Inr ()"
  by (simp add: generate_model_def ascii_def whole_text_def one_sentence_def quotes_sents_def
      sents_filter_def list_all_replicate)

section \<open>The weighted choice: draws and counts\<close>

lemma picks_below:
  "length (filter (\<lambda>r. pick ((u, c) # rest) r = Some t) [0..<c]) = (if u = t then c else 0)"
proof -
  have "filter (\<lambda>r. pick ((u, c) # rest) r = Some t) [0..<c] = filter (\<lambda>r. u = t) [0..<c]"
    by (rule filter_cong) auto
  then show ?thesis by simp
qed

lemma picks_above:
  "filter (\<lambda>r. pick ((u, c) # rest) r = Some t) [c..<c + n]
     = map (\<lambda>i. i + c) (filter (\<lambda>r. pick rest r = Some t) [0..<n])"
proof -
  have "[c..<c + n] = map (\<lambda>i. i + c) [0..<n]"
    by (simp add: map_add_upt add.commute)
  then show ?thesis by (simp add: filter_map comp_def)
qed

lemma pick_counts:
  "length (filter (\<lambda>r. pick dist r = Some t) [0..<total dist]) = count_of dist t"
proof (induction dist)
  case Nil
  show ?case by (simp add: total_def count_of_def)
next
  case (Cons entry rest)
  obtain u c where entry: "entry = (u, c)" by (cases entry)
  let ?P = "\<lambda>r. pick ((u, c) # rest) r = Some t"
  have split: "[0..<total ((u, c) # rest)] = [0..<c] @ [c..<c + total rest]"
    using upt_add_eq_append [of 0 c "total rest"] by (simp add: total_def)
  have below: "length (filter ?P [0..<c]) = (if u = t then c else 0)"
    by (rule picks_below)
  have above: "length (filter ?P [c..<c + total rest]) = count_of rest t"
    by (simp only: picks_above length_map Cons.IH)
  have "length (filter ?P [0..<total ((u, c) # rest)])
          = (if u = t then c else 0) + count_of rest t"
    by (simp only: split filter_append length_append below above)
  also have "\<dots> = count_of ((u, c) # rest) t"
    by (simp add: count_of_def)
  finally show ?case by (simp only: entry)
qed

text \<open>
  C2: at a step of the walk, the next token is chosen with probability proportional to its
  occurrence count. The raw draw is uniform over the \<open>total dist\<close> values below the total
  count of the current state's distribution; the number of these draws that choose the
  token \<open>t\<close> is the occurrence count of \<open>t\<close>, so \<open>t\<close> is chosen with probability
  \<open>count_of dist t / total dist\<close>, and not with one over the number of distinct tokens.
\<close>

theorem next_token_proportional_to_count:
  assumes "chain state = Some dist"
  shows "length (filter (\<lambda>rnd. next_token chain state rnd = Some t) [0..<total dist])
           = count_of dist t"
proof -
  have "filter (\<lambda>rnd. next_token chain state rnd = Some t) [0..<total dist]
          = filter (\<lambda>r. pick dist r = Some t) [0..<total dist]"
    by (rule filter_cong) (simp_all add: next_token_def weighted_choice_def assms)
  then show ?thesis by (simp add: pick_counts)
qed

text \<open>After \<open>the\<close>, \<open>cat\<close> was seen ten times and \<open>dog\<close> once: ten of the eleven draws choose \<open>cat\<close>.\<close>

theorem next_token_proportional_to_count_witness:
  "length (filter (\<lambda>rnd. next_token [''the'' \<mapsto> [(''cat'', 10), (''dog'', 1)]] ''the'' rnd
                          = Some ''cat'') [0..<11]) = 10
   \<and> length (filter (\<lambda>rnd. next_token [''the'' \<mapsto> [(''cat'', 10), (''dog'', 1)]] ''the'' rnd
                          = Some ''dog'') [0..<11]) = 1"
proof -
  let ?dist = "[(''cat'', 10::nat), (''dog'', 1)]"
  have eleven: "total ?dist = 11" by (simp add: total_def)
  have state: "[''the'' \<mapsto> ?dist] ''the'' = Some ?dist" by simp
  have "length (filter (\<lambda>rnd. next_token [''the'' \<mapsto> ?dist] ''the'' rnd = Some ''cat'')
                  [0..<total ?dist]) = count_of ?dist ''cat''"
    by (rule next_token_proportional_to_count
          [where chain = "[''the'' \<mapsto> ?dist]" and dist = ?dist, OF state])
  also have "count_of ?dist ''cat'' = 10" by (simp add: count_of_def)
  finally have cat: "length (filter (\<lambda>rnd. next_token [''the'' \<mapsto> ?dist] ''the'' rnd = Some ''cat'')
                  [0..<11]) = 10"
    unfolding eleven .
  have "length (filter (\<lambda>rnd. next_token [''the'' \<mapsto> ?dist] ''the'' rnd = Some ''dog'')
                  [0..<total ?dist]) = count_of ?dist ''dog''"
    by (rule next_token_proportional_to_count
          [where chain = "[''the'' \<mapsto> ?dist]" and dist = ?dist, OF state])
  also have "count_of ?dist ''dog'' = 1" by (simp add: count_of_def)
  finally have dog: "length (filter (\<lambda>rnd. next_token [''the'' \<mapsto> ?dist] ''the'' rnd = Some ''dog'')
                  [0..<11]) = 1"
    unfolding eleven .
  from cat dog show ?thesis by (rule conjI)
qed

end
